theory Spec2Isabelle
  imports Main "HOL-Library.Multiset" "HOL-Library.Option_ord"
begin

section \<open>The concurrent range crawler (nga\_crawler.py)\<close>

text \<open>
  A page is fetched by a worker of the thread pool; the caller sees the fetch through its
  future. \<open>future.result()\<close> either returns what \<open>fetch_page\<close> returned (a decoded page, or
  Python's \<open>None\<close> after a transport or decoding failure that \<open>fetch_page\<close> absorbed), or
  re-raises an exception that escaped \<open>fetch_page\<close>.
\<close>

datatype 'p outcome = Returns "'p option" | Raises

text \<open>What a consumer of the future ends up holding for the page: the returned value, or
  \<open>None\<close> when the future raised.\<close>

fun delivered :: "'p outcome \<Rightarrow> 'p option" where
  "delivered (Returns result) = result"
| "delivered Raises = None"

subsection \<open>crawl\_pages\_range\<close>

text \<open>
  The loop \<open>for future in as_completed(future_to_index)\<close>. The futures arrive in
  completion order, given here as the list of their indices; \<open>futures i\<close> is the outcome of
  the future submitted for \<open>pages[i]\<close>. A future that raises leaves its slot untouched.
\<close>

fun collect_completed ::
  "(nat \<Rightarrow> 'p outcome) \<Rightarrow> nat list \<Rightarrow> 'p option list \<Rightarrow> 'p option list" where
  "collect_completed futures [] results = results"
| "collect_completed futures (index # rest) results =
     (case futures index of
        Returns result \<Rightarrow> collect_completed futures rest (results[index := result])
      | Raises \<Rightarrow> collect_completed futures rest results)"

definition crawl_pages_range ::
  "(int \<Rightarrow> int \<Rightarrow> 'p outcome) \<Rightarrow> nat list \<Rightarrow> int \<Rightarrow> int \<Rightarrow> int \<Rightarrow> 'p option list" where
  "crawl_pages_range fetch_page as_completed tid start_page end_page =
     (if start_page > end_page then []
      else
        let pages = [start_page..end_page];
            results = replicate (length pages) None
        in collect_completed (\<lambda>i. fetch_page tid (pages ! i)) as_completed results)"

subsection \<open>crawl\_pages\_range\_with\_callback\<close>







section \<open>Storage (database.py)\<close>

text \<open>
  Python's unbounded integers are \<open>int\<close>. A post dictionary, as \<open>parse_page_result\<close>
  builds it and as a row of the \<open>posts\<close> table holds it; a thread dictionary, likewise a row
  of \<open>threads\<close>. The columns \<open>created_at\<close> and \<open>updated_at\<close>, which no function of the
  program reads, are left out.
\<close>

record post =
  pid :: int
  tid :: int
  fid :: int
  author_name :: string
  author_uid :: int
  post_date :: string
  post_timestamp :: int
  content :: string
  post_number :: int

record thread =
  thread_tid :: int
  title :: string
  thread_author_name :: string
  thread_author_uid :: int
  total_posts :: int
  total_pages :: int

text \<open>
  A row of \<open>monitored_threads\<close>. The two TEXT columns hold \<open>','.join(map(str, uids))\<close>
  of a list of integers, or NULL; they are kept as the list they encode. Timestamps are
  seconds on the clock of the model.
\<close>

record monitored_thread =
  monitored_tid :: int
  author_filter :: "int list option"
  author_notification :: "int list option"
  check_interval :: int
  last_checked :: "int option"
  last_post_timestamp :: int
  is_active :: bool

datatype py_exception = ZeroDivisionError | FetchError | CallbackError

datatype event_type = Ev_check | Ev_new_post | Ev_error

text \<open>The messages the monitor logs, with the numbers they interpolate.\<close>

datatype event_message =
    Failed_to_fetch_thread
  | No_new_posts
  | Found_filtered_by_author nat
  | Found_none_match_filter nat
  | Error_checking_thread py_exception

record monitoring_event =
  event_tid :: int
  event_kind :: event_type
  post_count :: nat
  message :: event_message

record tables =
  threads :: "thread list"
  posts :: "post list"
  monitored_threads :: "monitored_thread list"
  monitoring_events :: "monitoring_event list"

text \<open>
  The connection of Python's \<open>sqlite3\<close>: statements change the \<open>working\<close> tables, which
  every query of the connection reads; \<open>commit\<close> makes them the \<open>committed\<close> ones and
  \<open>rollback\<close> goes back to the last commit.
\<close>

record database =
  committed :: tables
  working :: tables

definition commit :: "database \<Rightarrow> database" where
  "commit d = d\<lparr>committed := working d\<rparr>"

definition rollback :: "database \<Rightarrow> database" where
  "rollback d = d\<lparr>working := committed d\<rparr>"

text \<open>\<open>INSERT OR REPLACE INTO posts\<close>: \<open>pid\<close> is the primary key.\<close>

definition insert_or_replace :: "post \<Rightarrow> post list \<Rightarrow> post list" where
  "insert_or_replace post_data rows = filter (\<lambda>row. pid row \<noteq> pid post_data) rows @ [post_data]"

text \<open>\<open>INSERT INTO threads ... ON CONFLICT(tid) DO UPDATE SET title, total_posts,
  total_pages\<close>: an existing row keeps its author columns.\<close>

definition upsert_thread :: "thread \<Rightarrow> thread list \<Rightarrow> thread list" where
  "upsert_thread thread_data rows =
     (if thread_tid thread_data \<in> set (map thread_tid rows)
      then map (\<lambda>row. if thread_tid row = thread_tid thread_data
                        then row\<lparr>title := title thread_data,
                                 total_posts := total_posts thread_data,
                                 total_pages := total_pages thread_data\<rparr>
                        else row) rows
      else rows @ [thread_data])"

text \<open>\<open>save_thread\<close>: the statement, then \<open>commit\<close>. With rows of the types above the
  statement has nothing to reject, so the handler (rollback, return False) is not reached;
  the callers ignore the returned flag.\<close>

definition save_thread :: "thread \<Rightarrow> database \<Rightarrow> database" where
  "save_thread thread_data d =
     commit (d\<lparr>working := (working d)\<lparr>threads := upsert_thread thread_data (threads (working d))\<rparr>\<rparr>)"

text \<open>
  \<open>save_posts_batch\<close>. \<open>cursor.execute\<close> may raise on a row (a constraint of the schema, a
  locked database): \<open>rejects post_data\<close> says that it does. The loop returns the rows, the
  counter and whether it was left by an exception.
\<close>

fun execute_inserts :: "(post \<Rightarrow> bool) \<Rightarrow> post list \<Rightarrow> post list \<Rightarrow> nat \<Rightarrow> post list \<times> nat \<times> bool" where
  "execute_inserts rejects [] rows saved_count = (rows, saved_count, False)"
| "execute_inserts rejects (post_data # rest) rows saved_count =
     (if rejects post_data then (rows, saved_count, True)
      else execute_inserts rejects rest (insert_or_replace post_data rows) (saved_count + 1))"

definition save_posts_batch :: "(post \<Rightarrow> bool) \<Rightarrow> post list \<Rightarrow> database \<Rightarrow> nat \<times> database" where
  "save_posts_batch rejects batch d =
     (case execute_inserts rejects batch (posts (working d)) 0 of
        (rows, saved_count, raised) \<Rightarrow>
          if raised then (saved_count, rollback d)
          else (saved_count, commit (d\<lparr>working := (working d)\<lparr>posts := rows\<rparr>\<rparr>)))"

definition get_thread :: "int \<Rightarrow> database \<Rightarrow> thread option" where
  "get_thread t d = find (\<lambda>row. thread_tid row = t) (threads (working d))"

subsection \<open>parse\_page\_result\<close>

text \<open>
  The decoded JSON of one page. Every key may be missing, which \<open>dict.get\<close> answers with
  its default: a field is \<open>None\<close> when the key is absent.
\<close>

record raw_author =
  username :: "string option"
  uid :: "int option"

record raw_post =
  raw_pid :: "int option"
  raw_tid :: "int option"
  raw_fid :: "int option"
  author :: "raw_author option"
  postdate :: "string option"
  postdatetimestamp :: "int option"
  raw_content :: "string option"
  lou :: "int option"

record page_data =
  vrows :: "int option"
  totalPage :: "int option"
  perPage :: "int option"
  currentPage :: "int option"
  tsubject :: "string option"
  tauthor :: "string option"
  tauthorid :: "int option"
  result :: "raw_post list option"

fun dict_get :: "'a option \<Rightarrow> 'a \<Rightarrow> 'a" where
  "dict_get None dflt = dflt"
| "dict_get (Some v) dflt = v"

definition empty_author :: raw_author where
  "empty_author = \<lparr>username = None, uid = None\<rparr>"

definition empty_post :: raw_post where
  "empty_post = \<lparr>raw_pid = None, raw_tid = None, raw_fid = None, author = None, postdate = None,
     postdatetimestamp = None, raw_content = None, lou = None\<rparr>"

definition empty_page :: page_data where
  "empty_page = \<lparr>vrows = None, totalPage = None, perPage = None, currentPage = None,
     tsubject = None, tauthor = None, tauthorid = None, result = None\<rparr>"

definition parse_post :: "raw_post \<Rightarrow> post" where
  "parse_post p =
     (let a = dict_get (author p) empty_author
      in \<lparr>pid = dict_get (raw_pid p) 0,
          tid = dict_get (raw_tid p) 0,
          fid = dict_get (raw_fid p) 0,
          author_name = dict_get (username a) [],
          author_uid = dict_get (uid a) 0,
          post_date = dict_get (postdate p) [],
          post_timestamp = dict_get (postdatetimestamp p) 0,
          content = dict_get (raw_content p) [],
          post_number = dict_get (lou p) 0\<rparr>)"

definition parse_page_result :: "page_data \<Rightarrow> thread \<times> post list" where
  "parse_page_result page =
     (let first_post = (case result page of Some (p # _) \<Rightarrow> p | _ \<Rightarrow> empty_post);
          thread_data = \<lparr>thread_tid = dict_get (raw_tid first_post) 0,
                         title = dict_get (tsubject page) [],
                         thread_author_name = dict_get (tauthor page) [],
                         thread_author_uid = dict_get (tauthorid page) 0,
                         total_posts = dict_get (vrows page) 0,
                         total_pages = dict_get (totalPage page) 0\<rparr>
      in (thread_data, map parse_post (dict_get (result page) [])))"

text \<open>Python's truth value of what \<open>fetch_page\<close> returned: \<open>None\<close> and the empty
  dictionary are false. The page is handed on when the value is true.\<close>

fun truthy :: "page_data option \<Rightarrow> page_data option" where
  "truthy None = None"
| "truthy (Some page) = (if page = empty_page then None else Some page)"

section \<open>The thread monitor (monitor.py)\<close>

text \<open>
  What the monitor acts on besides its database: the forum, the notification senders and
  the clock. \<open>requests\<close> lists the (tid, page) pairs handed to \<open>fetch_page\<close>, in order;
  \<open>notifications\<close> lists what went to \<open>notification_manager.send\<close>; \<open>clock\<close> is what
  \<open>datetime('now', 'localtime')\<close> reads.
\<close>

record notification =
  note_title :: string
  note_message :: string
  note_tid :: int
  note_pid :: int

record world =
  db :: database
  requests :: "(int \<times> int) list"
  notifications :: "notification list"
  clock :: int

text \<open>The forum answers the n-th request of the run (n counts from 0) for a thread and a
  page; the answer to the same page may differ from one request to the next.\<close>

type_synonym upstream = "nat \<Rightarrow> int \<Rightarrow> int \<Rightarrow> page_data outcome"

definition fetch_page :: "upstream \<Rightarrow> int \<Rightarrow> int \<Rightarrow> world \<Rightarrow> page_data outcome \<times> world" where
  "fetch_page forum t page w =
     (forum (length (requests w)) t page, w\<lparr>requests := requests w @ [(t, page)]\<rparr>)"

text \<open>\<open>_log_event\<close>: one INSERT, no commit.\<close>

definition log_event :: "int \<Rightarrow> event_type \<Rightarrow> nat \<Rightarrow> event_message \<Rightarrow> database \<Rightarrow> database" where
  "log_event t kind n msg d =
     d\<lparr>working := (working d)\<lparr>monitoring_events := monitoring_events (working d) @
        [\<lparr>event_tid = t, event_kind = kind, post_count = n, message = msg\<rparr>]\<rparr>\<rparr>"

text \<open>\<open>UPDATE monitored_threads SET last_checked = datetime('now', 'localtime') WHERE tid = ?\<close>\<close>

definition update_last_checked :: "int \<Rightarrow> int \<Rightarrow> database \<Rightarrow> database" where
  "update_last_checked now t d =
     d\<lparr>working := (working d)\<lparr>monitored_threads :=
        map (\<lambda>row. if monitored_tid row = t then row\<lparr>last_checked := Some now\<rparr> else row)
          (monitored_threads (working d))\<rparr>\<rparr>"

text \<open>\<open>set(int(uid) for uid in column.split(','))\<close> when the column is set, else the empty
  set.\<close>

fun uid_set :: "int list option \<Rightarrow> int set" where
  "uid_set None = {}"
| "uid_set (Some uids) = set uids"

subsection \<open>check\_thread\<close>

datatype check_error =
    Not_monitored int
  | Not_found_in_database int
  | Failed_to_fetch
  | Error_checking py_exception

record check_report =
  report_tid :: int
  new_posts :: nat
  total_new_posts :: "nat option"
  report_total_posts :: int
  report_posts :: "post list"

datatype check_result = Failure check_error | Report check_report

text \<open>The page arithmetic of the incremental check, for a divisor that is not zero.\<close>

definition old_last_page :: "int \<Rightarrow> int \<Rightarrow> int" where
  "old_last_page old_total_posts posts_per_page =
     (old_total_posts + posts_per_page - 1) div posts_per_page"

definition start_page_of :: "int \<Rightarrow> int \<Rightarrow> int" where
  "start_page_of old_total_posts posts_per_page =
     (if old_total_posts mod posts_per_page = 0 \<and> old_total_posts > 0
      then old_last_page old_total_posts posts_per_page + 1
      else max 1 (old_total_posts div posts_per_page + 1))"

text \<open>The branch \<open>new_post_count <= 0\<close>.\<close>

definition no_new_posts :: "int \<Rightarrow> page_data \<Rightarrow> world \<Rightarrow> check_result \<times> world" where
  "no_new_posts t first_page w =
     (let d1 = update_last_checked (clock w) t (db w);
          d2 = log_event t Ev_check 0 No_new_posts d1;
          d3 = save_thread (fst (parse_page_result first_page)) d2;
          d4 = commit d3
      in (Report \<lparr>report_tid = t, new_posts = 0, total_new_posts = None,
                  report_total_posts = dict_get (vrows first_page) 0, report_posts = []\<rparr>,
          w\<lparr>db := d4\<rparr>))"

text \<open>The sequential loop over \<open>pages_to_fetch\<close>: a page that failed is skipped.\<close>

fun fetch_new_pages ::
  "upstream \<Rightarrow> int \<Rightarrow> int list \<Rightarrow> post list \<Rightarrow> world \<Rightarrow> (py_exception + post list) \<times> world" where
  "fetch_new_pages forum t [] all_new_posts w = (Inr all_new_posts, w)"
| "fetch_new_pages forum t (page_num # rest) all_new_posts w =
     (case fetch_page forum t page_num w of
        (Raises, w') \<Rightarrow> (Inl FetchError, w')
      | (Returns page_result, w') \<Rightarrow>
          (case truthy page_result of
             None \<Rightarrow> fetch_new_pages forum t rest all_new_posts w'
           | Some page \<Rightarrow>
               fetch_new_pages forum t rest (all_new_posts @ snd (parse_page_result page)) w'))"

definition make_notification :: "thread \<Rightarrow> int \<Rightarrow> post \<Rightarrow> notification" where
  "make_notification thread_row t p =
     \<lparr>note_title = title thread_row,
      note_message = author_name p @ '': '' @ take 100 (content p),
      note_tid = t, note_pid = pid p\<rparr>"

definition send_notifications :: "monitored_thread \<Rightarrow> thread \<Rightarrow> int \<Rightarrow> post list \<Rightarrow> world \<Rightarrow> world" where
  "send_notifications monitor_config thread_row t filtered_new_posts w =
     (case author_notification monitor_config of
        None \<Rightarrow> w
      | Some uids \<Rightarrow>
          if uids = [] then w
          else w\<lparr>notifications := notifications w @
                 map (make_notification thread_row t)
                   (filter (\<lambda>p. author_uid p \<in> set uids) filtered_new_posts)\<rparr>)"

text \<open>What follows the fetch loop: de-duplication by \<open>pid\<close>, the author filter, the writes
  and the notifications.\<close>

definition new_posts_to_save :: "post list \<Rightarrow> database \<Rightarrow> post list" where
  "new_posts_to_save all_new_posts d =
     filter (\<lambda>p. pid p \<notin> set (map pid (posts (working d)))) all_new_posts"

definition filtered_new_posts :: "int set \<Rightarrow> post list \<Rightarrow> post list" where
  "filtered_new_posts author_uids to_save =
     filter (\<lambda>p. author_uids = {} \<or> author_uid p \<in> author_uids) to_save"

definition record_new_posts ::
  "(post \<Rightarrow> bool) \<Rightarrow> int \<Rightarrow> monitored_thread \<Rightarrow> thread \<Rightarrow> page_data \<Rightarrow> post list \<Rightarrow> world \<Rightarrow>
   check_result \<times> world" where
  "record_new_posts rejects t monitor_config thread_row first_page all_new_posts w =
     (let to_save = new_posts_to_save all_new_posts (db w);
          filtered = filtered_new_posts (uid_set (author_filter monitor_config)) to_save;
          d1 = (if to_save = [] then db w else snd (save_posts_batch rejects to_save (db w)));
          d2 = save_thread (fst (parse_page_result first_page)) d1;
          d3 = update_last_checked (clock w) t d2;
          d4 = (if filtered \<noteq> []
                then log_event t Ev_new_post (length filtered)
                       (Found_filtered_by_author (length filtered)) d3
                else log_event t Ev_check (length to_save)
                       (Found_none_match_filter (length to_save)) d3);
          d5 = commit d4;
          w' = send_notifications monitor_config thread_row t filtered (w\<lparr>db := d5\<rparr>)
      in (Report \<lparr>report_tid = t, new_posts = length filtered,
                  total_new_posts = Some (length to_save),
                  report_total_posts = dict_get (vrows first_page) 0,
                  report_posts = filtered\<rparr>, w'))"

text \<open>The body of the \<open>try\<close> statement: \<open>Inl\<close> is an exception leaving it.\<close>

definition check_thread_try ::
  "upstream \<Rightarrow> (post \<Rightarrow> bool) \<Rightarrow> int \<Rightarrow> monitored_thread \<Rightarrow> thread \<Rightarrow> world \<Rightarrow>
   (py_exception + check_result) \<times> world" where
  "check_thread_try forum rejects t monitor_config thread_row w =
     (case fetch_page forum t 1 w of
        (Raises, w1) \<Rightarrow> (Inl FetchError, w1)
      | (Returns page_result, w1) \<Rightarrow>
          (case truthy page_result of
             None \<Rightarrow>
               (Inr (Failure Failed_to_fetch),
                w1\<lparr>db := log_event t Ev_error 0 Failed_to_fetch_thread (db w1)\<rparr>)
           | Some first_page \<Rightarrow>
               let old_total_posts = total_posts thread_row;
                   current_total_posts = dict_get (vrows first_page) 0;
                   current_total_pages = dict_get (totalPage first_page) 0;
                   posts_per_page = dict_get (perPage first_page) 20;
                   new_post_count = current_total_posts - old_total_posts
               in if new_post_count \<le> 0 then
                    (case no_new_posts t first_page w1 of (r, w2) \<Rightarrow> (Inr r, w2))
                  else if posts_per_page = 0 then (Inl ZeroDivisionError, w1)
                  else
                    let start_page = start_page_of old_total_posts posts_per_page;
                        end_page = current_total_pages
                    in (case fetch_new_pages forum t [start_page..end_page] [] w1 of
                          (Inl e, w2) \<Rightarrow> (Inl e, w2)
                        | (Inr all_new_posts, w2) \<Rightarrow>
                            (case record_new_posts rejects t monitor_config thread_row
                                    first_page all_new_posts w2 of
                               (r, w3) \<Rightarrow> (Inr r, w3)))))"

text \<open>The whole function: the two lookups, the \<open>try\<close> body and the handler
  \<open>except Exception\<close>, which logs the error and returns a dictionary.\<close>

definition check_thread ::
  "upstream \<Rightarrow> (post \<Rightarrow> bool) \<Rightarrow> int \<Rightarrow> world \<Rightarrow> (py_exception + check_result) \<times> world" where
  "check_thread forum rejects t w =
     (case find (\<lambda>row. monitored_tid row = t \<and> is_active row)
             (monitored_threads (working (db w))) of
        None \<Rightarrow> (Inr (Failure (Not_monitored t)), w)
      | Some monitor_config \<Rightarrow>
          (case get_thread t (db w) of
             None \<Rightarrow> (Inr (Failure (Not_found_in_database t)), w)
           | Some thread_row \<Rightarrow>
               (case check_thread_try forum rejects t monitor_config thread_row w of
                  (Inr r, w') \<Rightarrow> (Inr r, w')
                | (Inl e, w') \<Rightarrow>
                    (Inr (Failure (Error_checking e)),
                     w'\<lparr>db := log_event t Ev_error 0 (Error_checking_thread e) (db w')\<rparr>))))"

subsection \<open>check\_all\<close>





subsection \<open>load\_from\_config: a configured thread that has stored posts\<close>



definition max_post_number :: "int \<Rightarrow> database \<Rightarrow> int" where
  "max_post_number t d =
     (case map post_number (filter (\<lambda>p. tid p = t) (posts (working d))) of
        [] \<Rightarrow> - 1
      | n # ns \<Rightarrow> fold max ns n)"






section \<open>Concrete data for the examples\<close>

text \<open>A post of thread 7 with the given pid, author and ordinal; the page that carries
  such posts; a store with one monitored thread.\<close>

definition a_post :: "int \<Rightarrow> int \<Rightarrow> int \<Rightarrow> post" where
  "a_post p a n =
     \<lparr>pid = p, tid = 7, fid = 1, author_name = ''u'', author_uid = a, post_date = ''d'',
      post_timestamp = 1000 + n, content = ''text'', post_number = n\<rparr>"

definition a_raw_post :: "int \<Rightarrow> int \<Rightarrow> int \<Rightarrow> raw_post" where
  "a_raw_post p a n =
     \<lparr>raw_pid = Some p, raw_tid = Some 7, raw_fid = Some 1,
      author = Some \<lparr>username = Some ''u'', uid = Some a\<rparr>, postdate = Some ''d'',
      postdatetimestamp = Some (1000 + n), raw_content = Some ''text'', lou = Some n\<rparr>"

definition a_page :: "int \<Rightarrow> int \<Rightarrow> int \<Rightarrow> raw_post list \<Rightarrow> page_data" where
  "a_page total_rows pages per_page rows =
     \<lparr>vrows = Some total_rows, totalPage = Some pages, perPage = Some per_page,
      currentPage = None, tsubject = Some ''subject'', tauthor = Some ''op'',
      tauthorid = Some 100, result = Some rows\<rparr>"

definition a_thread :: "int \<Rightarrow> int \<Rightarrow> thread" where
  "a_thread n pages =
     \<lparr>thread_tid = 7, title = ''subject'', thread_author_name = ''op'',
      thread_author_uid = 100, total_posts = n, total_pages = pages\<rparr>"

definition a_subscription :: "int list option \<Rightarrow> monitored_thread" where
  "a_subscription only =
     \<lparr>monitored_tid = 7, author_filter = only, author_notification = None,
      check_interval = 300, last_checked = None, last_post_timestamp = 0, is_active = True\<rparr>"

definition a_store :: "thread list \<Rightarrow> post list \<Rightarrow> monitored_thread list \<Rightarrow> database" where
  "a_store ts ps ms =
     \<lparr>committed = \<lparr>threads = ts, posts = ps, monitored_threads = ms, monitoring_events = []\<rparr>,
      working = \<lparr>threads = ts, posts = ps, monitored_threads = ms, monitoring_events = []\<rparr>\<rparr>"

definition a_world :: "database \<Rightarrow> world" where
  "a_world d = \<lparr>db = d, requests = [], notifications = [], clock = 50\<rparr>"

section \<open>A definition that follows the specification\<close>

text \<open>
  The start page the specification gives for an incremental check whose stored maximum
  post number disagrees with the previous total: the offset arithmetic of the
  reconciliation, \<open>floor(max_post_number / posts_per_page) + 1\<close>, anchored on the stored
  maximum. It is written from the specification's words (section 4.4, step 3);
  \<open>check_thread\<close> has no counterpart of it.
\<close>

definition spec_reanchored_start_page :: "int \<Rightarrow> int \<Rightarrow> int" where
  "spec_reanchored_start_page max_post_no posts_per_page = max_post_no div posts_per_page + 1"

section \<open>An invariant of the reconciliation\<close>


section \<open>Properties of the crawler\<close>

lemma length_collect_completed:
  "length (collect_completed futures order results) = length results"
  by (induction order arbitrary: results) (auto split: outcome.splits)

lemma nth_collect_completed_other:
  "i \<notin> set order \<Longrightarrow> collect_completed futures order results ! i = results ! i"
  by (induction order arbitrary: results) (auto split: outcome.splits)

lemma nth_collect_completed:
  "distinct order \<Longrightarrow> i \<in> set order \<Longrightarrow> i < length results \<Longrightarrow> results ! i = None \<Longrightarrow>
   collect_completed futures order results ! i = delivered (futures i)"
proof (induction order arbitrary: results)
  case Nil
  then show ?case by simp
next
  case (Cons j order)
  show ?case
  proof (cases "i = j")
    case True
    with Cons.prems have "i \<notin> set order" by simp
    then show ?thesis using True Cons.prems
      by (cases "futures j") (simp_all add: nth_collect_completed_other)
  next
    case False
    with Cons.prems have "i \<in> set order" "distinct order" by simp_all
    then show ?thesis using False Cons.prems Cons.IH
      by (cases "futures j") simp_all
  qed
qed

text \<open>
  Claim C10. \<open>crawl_pages_range\<close> returns the results in page order whatever the order
  in which the fetches complete: the list has one entry per page of
  \<open>[start_page..end_page]\<close> (so it is empty when \<open>start_page > end_page\<close> and has
  \<open>end_page - start_page + 1\<close> entries otherwise), and the i-th entry is what the fetch of
  page \<open>start_page + i\<close> delivered, \<open>None\<close> when it failed or raised. The completion order
  is any permutation of the indices of the submitted futures.
\<close>

theorem crawl_pages_range_page_order:
  assumes "mset as_completed = mset [0..<length [start_page..end_page]]"
  shows "crawl_pages_range fetch as_completed t start_page end_page =
           map (\<lambda>page. delivered (fetch t page)) [start_page..end_page]
         \<and> length (crawl_pages_range fetch as_completed t start_page end_page) =
           (if start_page > end_page then 0 else nat (end_page - start_page + 1))"
proof (cases "start_page > end_page")
  case True
  then show ?thesis by (simp add: crawl_pages_range_def)
next
  case False
  let ?pages = "[start_page..end_page]"
  let ?n = "length ?pages"
  let ?futures = "\<lambda>i. fetch t (?pages ! i)"
  let ?res = "collect_completed ?futures as_completed (replicate ?n None)"
  have d: "distinct as_completed"
    using assms by (metis distinct_upt mset_eq_imp_distinct_iff)
  have s: "set as_completed = {0..<?n}"
    using assms by (metis mset_eq_setD set_upt)
  have len: "length ?res = ?n" by (simp add: length_collect_completed)
  have "?res = map (\<lambda>page. delivered (fetch t page)) ?pages"
  proof (rule nth_equalityI)
    show "length ?res = length (map (\<lambda>page. delivered (fetch t page)) ?pages)"
      using len by simp
  next
    fix i assume "i < length ?res"
    then have i: "i < ?n" using len by simp
    then have "?res ! i = delivered (?futures i)"
      using d s by (intro nth_collect_completed) simp_all
    then show "?res ! i = map (\<lambda>page. delivered (fetch t page)) ?pages ! i"
      using i by simp
  qed
  then have eq: "crawl_pages_range fetch as_completed t start_page end_page =
      map (\<lambda>page. delivered (fetch t page)) ?pages"
    using False by (simp add: crawl_pages_range_def Let_def)
  show ?thesis using False eq by simp
qed

theorem crawl_pages_range_page_order_witness:
  "mset [2, 0, 1::nat] = mset [0..<length [(3::int)..5]]
   \<and> crawl_pages_range (\<lambda>t page. if page = 4 then Returns None else Returns (Some (page * 10)))
        [2, 0, 1] 7 3 5 = [Some 30, None, Some 50]"
proof -
  have u: "[(3::int)..5] = [3, 4, 5]" by (simp add: upto.simps)
  have h: "mset [2, 0, 1::nat] = mset [0..<length [(3::int)..5]]"
    unfolding u by (simp add: upt_rec)
  show ?thesis
    using h crawl_pages_range_page_order [OF h, of "\<lambda>t page. if page = 4 then Returns None else Returns (Some (page * 10))" 7]
    unfolding u by simp
qed












section \<open>Properties of the storage layer\<close>


lemma execute_inserts_rejected:
  "\<exists>p \<in> set batch. rejects p \<Longrightarrow>
   \<exists>rows' k. execute_inserts rejects batch rows n = (rows', n + k, True) \<and> k < length batch"
proof (induction batch arbitrary: rows n)
  case Nil
  then show ?case by simp
next
  case (Cons p batch)
  show ?case
  proof (cases "rejects p")
    case True
    then show ?thesis by simp
  next
    case False
    with Cons.prems have "\<exists>p \<in> set batch. rejects p" by simp
    from Cons.IH [OF this, of "insert_or_replace p rows" "n + 1"]
    obtain rows' k where "execute_inserts rejects batch (insert_or_replace p rows) (n + 1) = (rows', n + 1 + k, True)"
      "k < length batch" by blast
    then show ?thesis using False
      by (intro exI [of _ rows'] exI [of _ "Suc k"]) simp
  qed
qed


lemma save_posts_batch_rejected:
  "\<exists>p \<in> set batch. rejects p \<Longrightarrow> snd (save_posts_batch rejects batch d) = rollback d"
  using execute_inserts_rejected [of batch rejects "posts (working d)" 0]
  by (auto simp: save_posts_batch_def)

text \<open>
  Claim C9. The batch write is atomic (lemmas \<open>save_posts_batch_accepted\<close> and
  \<open>save_posts_batch_rejected\<close>: all rows are committed, or the connection is rolled
  back), but the returned count is not the number of rows persisted: with a batch of two
  rows whose second row the store rejects, \<open>save_posts_batch\<close> rolls back, so that no
  row of the batch is stored, and returns 1.
\<close>

theorem save_posts_batch_count_after_rollback:
  "save_posts_batch (\<lambda>p. pid p = 2) [a_post 1 100 0, a_post 2 100 1] (a_store [] [] [])
     = (1, a_store [] [] [])
   \<and> posts (committed (snd (save_posts_batch (\<lambda>p. pid p = 2) [a_post 1 100 0, a_post 2 100 1]
        (a_store [] [] [])))) = []"
  by (simp add: save_posts_batch_def a_post_def a_store_def rollback_def Let_def)

section \<open>Properties of the incremental check\<close>

lemma fetch_new_pages_db:
  "fetch_new_pages forum t pages acc (w\<lparr>db := d\<rparr>) =
     (fst (fetch_new_pages forum t pages acc w), (snd (fetch_new_pages forum t pages acc w))\<lparr>db := d\<rparr>)"
proof (induction pages arbitrary: acc w)
  case Nil
  then show ?case by simp
next
  case (Cons page pages)
  have upd: "\<And>rs. w\<lparr>db := d, requests := rs\<rparr> = w\<lparr>requests := rs\<rparr>\<lparr>db := d\<rparr>" by simp
  show ?case
    by (simp add: fetch_page_def upd Cons.IH split: outcome.splits option.splits)
qed


lemma fetch_new_pages_requests:
  "\<forall>n p. forum n t p \<noteq> Raises \<Longrightarrow>
   requests (snd (fetch_new_pages forum t pages acc w)) = requests w @ map (Pair t) pages
   \<and> (\<exists>ps. fst (fetch_new_pages forum t pages acc w) = Inr ps)"
proof (induction pages arbitrary: acc w)
  case Nil
  then show ?case by simp
next
  case (Cons page pages)
  from Cons.prems obtain r where r: "forum (length (requests w)) t page = Returns r"
    by (metis outcome.exhaust)
  show ?case
    using Cons.IH [OF Cons.prems] r
    by (simp add: fetch_page_def split: option.splits)
qed

lemma requests_send_notifications [simp]:
  "requests (send_notifications cfg th t ps w) = requests w"
  by (simp add: send_notifications_def split: option.splits)

lemma requests_record_new_posts [simp]:
  "requests (snd (record_new_posts rejects t cfg th fp ps w)) = requests w"
  by (simp add: record_new_posts_def Let_def)

lemma requests_no_new_posts [simp]:
  "requests (snd (no_new_posts t fp w)) = requests w"
  by (simp add: no_new_posts_def Let_def)

lemma requests_check_thread_try_db:
  "requests (snd (check_thread_try forum rejects t cfg th (w\<lparr>db := d\<rparr>))) =
   requests (snd (check_thread_try forum rejects t cfg th w))"
proof -
  have upd: "\<And>rs. w\<lparr>db := d, requests := rs\<rparr> = w\<lparr>requests := rs\<rparr>\<lparr>db := d\<rparr>" by simp
  show ?thesis
    unfolding check_thread_try_def fetch_page_def
    by (simp add: upd fetch_new_pages_db Let_def split_beta split: outcome.splits option.splits sum.splits)
qed

lemma check_thread_requests_new_posts:
  assumes cfg: "find (\<lambda>row. monitored_tid row = t \<and> is_active row)
                  (monitored_threads (working (db w))) = Some cfg"
      and th: "get_thread t (db w) = Some th"
      and fp: "forum (length (requests w)) t 1 = Returns (Some first_page)"
      and ne: "first_page \<noteq> empty_page"
      and more: "total_posts th < dict_get (vrows first_page) 0"
      and ppp: "dict_get (perPage first_page) 20 \<noteq> 0"
      and nr: "\<forall>n p. forum n t p \<noteq> Raises"
  shows "requests (snd (check_thread forum rejects t w)) =
           requests w @ (t, 1) #
             map (Pair t) [start_page_of (total_posts th) (dict_get (perPage first_page) 20)..
                           dict_get (totalPage first_page) 0]"
proof -
  let ?w1 = "w\<lparr>requests := requests w @ [(t, 1)]\<rparr>"
  let ?pages = "[start_page_of (total_posts th) (dict_get (perPage first_page) 20)..
                           dict_get (totalPage first_page) 0]"
  from fetch_new_pages_requests [where forum = forum and t = t and pages = ?pages
      and acc = "[]" and w = ?w1, OF nr]
  obtain ps where r: "requests (snd (fetch_new_pages forum t ?pages [] ?w1)) =
        requests ?w1 @ map (Pair t) ?pages"
     and ps: "fst (fetch_new_pages forum t ?pages [] ?w1) = Inr ps"
    by blast
  have "requests (snd (check_thread_try forum rejects t cfg th w)) =
          requests w @ (t, 1) # map (Pair t) ?pages"
    using fp ne more ppp r ps
    by (simp add: check_thread_try_def fetch_page_def Let_def split_beta)
  then show ?thesis
    using cfg th by (simp add: check_thread_def split_beta split: sum.splits)
qed

lemma start_page_of_div:
  assumes "0 < old" and "0 < ppp"
  shows "start_page_of old ppp = old div ppp + 1"
    and "old mod ppp = 0 \<Longrightarrow> old_last_page old ppp = old div ppp"
proof -
  have nonneg: "0 \<le> old div ppp" using assms by (simp add: pos_imp_zdiv_nonneg_iff)
  show last: "old_last_page old ppp = old div ppp" if m: "old mod ppp = 0"
  proof -
    from m obtain q where q: "old = ppp * q" by (auto simp: mod_eq_0_iff_dvd)
    have "(ppp * q + (ppp - 1)) div ppp = q + (ppp - 1) div ppp"
      using assms(2) by simp
    moreover have "(ppp - 1) div ppp = 0"
      using assms(2) by (simp add: div_pos_pos_trivial)
    ultimately have "(old + ppp - 1) div ppp = q" using q by (simp add: algebra_simps)
    moreover have "old div ppp = q" using q assms(2) by simp
    ultimately show ?thesis by (simp add: old_last_page_def)
  qed
  show "start_page_of old ppp = old div ppp + 1"
    using nonneg last by (simp add: start_page_of_def)
qed

text \<open>
  Claim C1. For a monitored thread with stored \<open>total_posts > 0\<close>, a page 1 that reports
  more posts and a positive \<open>perPage\<close>, and fetches that do not raise, \<open>check_thread\<close>
  requests page 1 and then the pages from \<open>start_page\<close> to the reported \<open>totalPage\<close>, where
  \<open>start_page\<close> is \<open>floor(old_total_posts / posts_per_page) + 1\<close> when the old total is not
  a multiple of \<open>posts_per_page\<close> and the page after the old last page when it is (the
  two agree); with 20 posts per page and 41 old posts it is 3.
\<close>

theorem incremental_check_page_range:
  assumes "find (\<lambda>row. monitored_tid row = t \<and> is_active row)
                  (monitored_threads (working (db w))) = Some cfg"
      and "get_thread t (db w) = Some th"
      and "0 < total_posts th"
      and "forum (length (requests w)) t 1 = Returns (Some first_page)"
      and "first_page \<noteq> empty_page"
      and "total_posts th < dict_get (vrows first_page) 0"
      and "0 < dict_get (perPage first_page) 20"
      and "\<forall>n p. forum n t p \<noteq> Raises"
  shows "requests (snd (check_thread forum rejects t w)) =
           requests w @ (t, 1) #
             map (Pair t) [start_page_of (total_posts th) (dict_get (perPage first_page) 20)..
                           dict_get (totalPage first_page) 0]
       \<and> (total_posts th mod dict_get (perPage first_page) 20 \<noteq> 0 \<longrightarrow>
            start_page_of (total_posts th) (dict_get (perPage first_page) 20) =
              total_posts th div dict_get (perPage first_page) 20 + 1)
       \<and> (total_posts th mod dict_get (perPage first_page) 20 = 0 \<longrightarrow>
            start_page_of (total_posts th) (dict_get (perPage first_page) 20) =
              old_last_page (total_posts th) (dict_get (perPage first_page) 20) + 1)
       \<and> start_page_of (total_posts th) (dict_get (perPage first_page) 20) =
            total_posts th div dict_get (perPage first_page) 20 + 1
       \<and> start_page_of 41 20 = 3"
proof -
  have nz: "dict_get (perPage first_page) 20 \<noteq> 0" using assms(7) by simp
  have a: "requests (snd (check_thread forum rejects t w)) =
           requests w @ (t, 1) #
             map (Pair t) [start_page_of (total_posts th) (dict_get (perPage first_page) 20)..
                           dict_get (totalPage first_page) 0]"
    using assms(1) assms(2) assms(4) assms(5) assms(6) nz assms(8)
    by (rule check_thread_requests_new_posts)
  have b: "start_page_of (total_posts th) (dict_get (perPage first_page) 20) =
            total_posts th div dict_get (perPage first_page) 20 + 1"
    using assms(3) assms(7) by (rule start_page_of_div(1))
  have c: "total_posts th mod dict_get (perPage first_page) 20 = 0 \<longrightarrow>
            start_page_of (total_posts th) (dict_get (perPage first_page) 20) =
              old_last_page (total_posts th) (dict_get (perPage first_page) 20) + 1"
    using b start_page_of_div(2) [OF assms(3) assms(7)] by simp
  have d: "start_page_of 41 20 = 3"
    by (simp add: start_page_of_def)
  show ?thesis using a b c d by simp
qed

lemmas example_defs = a_post_def a_raw_post_def a_page_def a_thread_def a_subscription_def
  a_store_def a_world_def

theorem incremental_check_page_range_witness:
  "requests (snd (check_thread (\<lambda>n t p. Returns (Some (a_page 45 3 20 [a_raw_post 900 100 44])))
       (\<lambda>p. False) 7
       (a_world (a_store [a_thread 41 3] [a_post 1 100 40] [a_subscription None]))))
     = [(7, 1), (7, 3)]
   \<and> start_page_of 41 20 = 41 div 20 + 1"
proof -
  let ?forum = "\<lambda>(n::nat) (t::int) (p::int). Returns (Some (a_page 45 3 20 [a_raw_post 900 100 44]))"
  let ?w = "a_world (a_store [a_thread 41 3] [a_post 1 100 40] [a_subscription None])"
  have h1: "find (\<lambda>row. monitored_tid row = 7 \<and> is_active row)
                  (monitored_threads (working (db ?w))) = Some (a_subscription None)"
    by (simp add: example_defs)
  have h2: "get_thread 7 (db ?w) = Some (a_thread 41 3)"
    by (simp add: example_defs get_thread_def)
  have h3: "0 < total_posts (a_thread 41 3)" by (simp add: example_defs)
  have h4: "?forum (length (requests ?w)) 7 1 = Returns (Some (a_page 45 3 20 [a_raw_post 900 100 44]))"
    by simp
  have h5: "a_page 45 3 20 [a_raw_post 900 100 44] \<noteq> empty_page"
    by (simp add: example_defs empty_page_def)
  have h6: "total_posts (a_thread 41 3) < dict_get (vrows (a_page 45 3 20 [a_raw_post 900 100 44])) 0"
    by (simp add: example_defs)
  have h7: "0 < dict_get (perPage (a_page 45 3 20 [a_raw_post 900 100 44])) 20"
    by (simp add: example_defs)
  have h8: "\<forall>n p. ?forum n 7 p \<noteq> Raises" by simp
  have v: "total_posts (a_thread 41 3) = 41"
     "dict_get (perPage (a_page 45 3 20 [a_raw_post 900 100 44])) 20 = 20"
     "dict_get (totalPage (a_page 45 3 20 [a_raw_post 900 100 44])) 0 = 3"
     "requests ?w = []"
    by (simp_all add: example_defs)
  note inst = incremental_check_page_range [where forum = ?forum and t = 7 and w = ?w
      and cfg = "a_subscription None" and th = "a_thread 41 3" and rejects = "\<lambda>p. False"
      and first_page = "a_page 45 3 20 [a_raw_post 900 100 44]", OF h1 h2 h3 h4 h5 h6 h7 h8]
  have sp: "start_page_of 41 20 = 3" using inst by simp
  have a: "requests (snd (check_thread ?forum (\<lambda>p. False) 7 ?w)) = [(7, 1), (7, 3)]"
    using inst [THEN conjunct1] unfolding v sp by simp
  show ?thesis using a sp by simp
qed

text \<open>
  Claim C2, as stated, fails: a thread stored with \<open>total_posts = 41\<close> whose only stored
  post has number 10 (so the stored maximum differs from \<open>old_total_posts - 1 = 40\<close>) is
  checked from page 3, the page derived from the previous total, although the start page
  anchored on the stored maximum is 1.
\<close>

theorem no_reanchoring_counterexample:
  "max_post_number 7 (db (a_world (a_store [a_thread 41 3] [a_post 1 100 10] [a_subscription None]))) = 10
   \<and> (10::int) \<noteq> 41 - 1
   \<and> spec_reanchored_start_page 10 20 = 1
   \<and> requests (snd (check_thread (\<lambda>n t p. Returns (Some (a_page 45 3 20 [a_raw_post 900 100 44])))
       (\<lambda>p. False) 7
       (a_world (a_store [a_thread 41 3] [a_post 1 100 10] [a_subscription None]))))
     = [(7, 1), (7, 3)]"
proof -
  let ?forum = "\<lambda>(n::nat) (t::int) (p::int). Returns (Some (a_page 45 3 20 [a_raw_post 900 100 44]))"
  let ?w = "a_world (a_store [a_thread 41 3] [a_post 1 100 10] [a_subscription None])"
  have h1: "find (\<lambda>row. monitored_tid row = 7 \<and> is_active row)
                  (monitored_threads (working (db ?w))) = Some (a_subscription None)"
    by (simp add: example_defs)
  have h2: "get_thread 7 (db ?w) = Some (a_thread 41 3)"
    by (simp add: example_defs get_thread_def)
  have h4: "?forum (length (requests ?w)) 7 1 = Returns (Some (a_page 45 3 20 [a_raw_post 900 100 44]))"
    by simp
  have h5: "a_page 45 3 20 [a_raw_post 900 100 44] \<noteq> empty_page"
    by (simp add: example_defs empty_page_def)
  have h6: "total_posts (a_thread 41 3) < dict_get (vrows (a_page 45 3 20 [a_raw_post 900 100 44])) 0"
    by (simp add: example_defs)
  have h7: "dict_get (perPage (a_page 45 3 20 [a_raw_post 900 100 44])) 20 \<noteq> 0"
    by (simp add: example_defs)
  have h8: "\<forall>n p. ?forum n 7 p \<noteq> Raises" by simp
  have v: "total_posts (a_thread 41 3) = 41"
     "dict_get (perPage (a_page 45 3 20 [a_raw_post 900 100 44])) 20 = 20"
     "dict_get (totalPage (a_page 45 3 20 [a_raw_post 900 100 44])) 0 = 3"
     "requests ?w = []"
    by (simp_all add: example_defs)
  have sp: "start_page_of 41 20 = 3" by (simp add: start_page_of_def)
  have a: "requests (snd (check_thread ?forum (\<lambda>p. False) 7 ?w)) = [(7, 1), (7, 3)]"
    using check_thread_requests_new_posts [where forum = ?forum and t = 7 and w = ?w
      and cfg = "a_subscription None" and th = "a_thread 41 3" and rejects = "\<lambda>p. False"
      and first_page = "a_page 45 3 20 [a_raw_post 900 100 44]", OF h1 h2 h4 h5 h6 h7 h8]
    unfolding v sp by simp
  have m: "max_post_number 7 (db ?w) = 10"
    by (simp add: example_defs max_post_number_def)
  have s: "spec_reanchored_start_page 10 20 = 1"
    by (simp add: spec_reanchored_start_page_def)
  show ?thesis using a m s by simp
qed

text \<open>
  Claim C2, amended. \<open>check_thread\<close> never consults the stored posts to choose the pages
  it requests: replacing the stored posts by any others (hence any stored maximum post
  number) leaves the requested pages the same: the start page always comes from the stored
  \<open>total_posts\<close>.
\<close>

theorem check_thread_pages_ignore_stored_posts:
  "requests (snd (check_thread forum rejects t
       (w\<lparr>db := (db w)\<lparr>working := (working (db w))\<lparr>posts := stored\<rparr>\<rparr>\<rparr>))) =
   requests (snd (check_thread forum rejects t w))"
proof -
  let ?d = "(db w)\<lparr>working := (working (db w))\<lparr>posts := stored\<rparr>\<rparr>"
  have t: "\<And>cfg th. requests (snd (check_thread_try forum rejects t cfg th (w\<lparr>db := ?d\<rparr>))) =
      requests (snd (check_thread_try forum rejects t cfg th w))"
    by (rule requests_check_thread_try_db)
  show ?thesis
    using t
    by (simp add: check_thread_def get_thread_def split_beta split: option.splits sum.splits)
qed

section \<open>A check that finds nothing new\<close>













section \<open>A check that finds new posts\<close>










section \<open>Failures of a check\<close>








section \<open>Reconciliation at configuration sync\<close>















end
